theory Spec2Isabelle
  imports Main "HOL-Library.Word"
begin

unbundle bit_operations_syntax

section \<open>The SCSI CDROM device handler (scst_cdrom.c)\<close>

text \<open>
  A shallow embedding of the four callbacks of the handler: \<open>cdrom_attach\<close>,
  \<open>cdrom_detach\<close>, \<open>cdrom_parse\<close> (with its accessor \<open>cdrom_get_block_shift\<close>) and
  \<open>cdrom_set_block_shift\<close>, the mutator handed to the generic completion routine.

  C \<open>int\<close> is a 32-bit word (\<open>sint\<close> reads it), \<open>uint8_t\<close> an 8-bit word. Objects
  obtained from \<open>kzalloc\<close>/\<open>kmalloc\<close> live in an explicit store, so that allocation,
  release and the pointer \<open>dev->dh_priv\<close> are visible in the state.
\<close>

type_synonym c_int = "32 word"
type_synonym uint8_t = "8 word"
type_synonym addr = nat

subsection \<open>Constants\<close>

definition CDROM_DEF_BLOCK_SHIFT :: c_int where
  "CDROM_DEF_BLOCK_SHIFT = 11"

text \<open>\<open>const int buffer_size = 512\<close>, local to \<open>cdrom_attach\<close>.\<close>

definition buffer_size :: nat where
  "buffer_size = 512"

text \<open>
  Constants of the Linux headers the file includes (\<open>scsi/scsi.h\<close>, \<open>scsi/scsi_cmnd.h\<close>,
  \<open>errno-base.h\<close>).
\<close>

definition READ_CAPACITY :: uint8_t where
  "READ_CAPACITY = 0x25"

definition SCSI_2 :: c_int where
  "SCSI_2 = 3"

definition UNIT_ATTENTION :: c_int where
  "UNIT_ATTENTION = 6"

definition SCSI_SENSE_BUFFERSIZE :: nat where
  "SCSI_SENSE_BUFFERSIZE = 96"

definition ENODEV :: c_int where
  "ENODEV = 19"

definition ENOMEM :: c_int where
  "ENOMEM = 12"

subsection \<open>Data\<close>

text \<open>\<open>struct cdrom_params\<close>: the per-device private record.\<close>

record cdrom_params =
  block_shift :: c_int

text \<open>The fields of \<open>struct scsi_device\<close> and \<open>struct scst_device\<close> the handler reads.\<close>

record scsi_device =
  sdev_type :: c_int
  scsi_level :: c_int
  lun :: c_int

record scst_device =
  scsi_dev :: "scsi_device option"
  dev_type :: c_int
  dh_priv :: "addr option"
  virt_name :: string

text \<open>
  \<open>struct scst_cmd\<close>: the handler touches \<open>cmd->dev\<close> and \<open>cmd->retries\<close> only; every
  other field is the record's extension.
\<close>

record scst_cmd =
  dev :: scst_device
  retries :: c_int

text \<open>
  Objects on the kernel heap: a \<open>struct cdrom_params\<close> or a byte buffer. A pointer is
  \<open>None\<close> (\<open>NULL\<close>) or \<open>Some a\<close>. \<open>alloc_calls\<close> counts the allocation requests made
  and \<open>exec_calls\<close> the \<open>scsi_execute\<close> calls made; \<open>fault\<close> records an access through
  a pointer that is not live (undefined behaviour in C).
\<close>

datatype kobj = Params cdrom_params | Bytes "uint8_t list"

record kstate =
  heap :: "addr \<rightharpoonup> kobj"
  next_addr :: addr
  alloc_calls :: nat
  exec_calls :: nat
  fault :: bool

text \<open>
  What the handler takes from \<open>scst.h\<close> and the kernel, none of it in the handler's file:
  the constants of \<open>scst.h\<close>, the outcome of each allocation request (by request number),
  the content of memory fresh from \<open>kmalloc\<close>, the transport (by call number: the return
  code, the bytes the device put into the data buffer and the bytes put into the sense
  buffer), and the framework's helpers.
\<close>

record framework =
  SCST_DEV_UA_RETRIES :: c_int
  SCST_GENERIC_CDROM_REG_TIMEOUT :: c_int
  SCST_DATA_READ :: c_int
  SCST_SENSE_KEY_VALID :: c_int
  SCST_PASSTHROUGH_RETRIES :: c_int
  SCST_CMD_STATE_DEFAULT :: c_int
  alloc_ok :: "nat \<Rightarrow> bool"
  uninit :: "nat \<Rightarrow> uint8_t"
  scsi_execute :: "nat \<Rightarrow> scsi_device \<Rightarrow> uint8_t list \<Rightarrow> c_int \<Rightarrow> nat \<Rightarrow> c_int \<Rightarrow> c_int
    \<Rightarrow> c_int \<Rightarrow> c_int \<times> uint8_t list \<times> uint8_t list"
  scst_analyze_sense :: "uint8_t list \<Rightarrow> nat \<Rightarrow> c_int \<Rightarrow> c_int \<Rightarrow> c_int \<Rightarrow> c_int \<Rightarrow> bool"
  scst_calc_block_shift :: "c_int \<Rightarrow> c_int"
  scst_obtain_device_parameters :: "scst_device \<Rightarrow> c_int"

subsection \<open>Memory\<close>

text \<open>
  An allocation request either fails (\<open>NULL\<close>) or puts the object at a fresh address.
  \<open>kzalloc\<close> zeroes the object, \<open>kmalloc\<close> does not initialise it.
\<close>

definition kalloc :: "framework \<Rightarrow> kobj \<Rightarrow> kstate \<Rightarrow> addr option \<times> kstate" where
  "kalloc fw obj st =
     (if alloc_ok fw (alloc_calls st)
      then (Some (next_addr st),
            st\<lparr>heap := (heap st)(next_addr st \<mapsto> obj),
               next_addr := Suc (next_addr st),
               alloc_calls := Suc (alloc_calls st)\<rparr>)
      else (None, st\<lparr>alloc_calls := Suc (alloc_calls st)\<rparr>))"

definition kzalloc_params :: "framework \<Rightarrow> kstate \<Rightarrow> addr option \<times> kstate" where
  "kzalloc_params fw st = kalloc fw (Params \<lparr>block_shift = 0\<rparr>) st"

definition kmalloc :: "framework \<Rightarrow> nat \<Rightarrow> kstate \<Rightarrow> addr option \<times> kstate" where
  "kmalloc fw n st = kalloc fw (Bytes (map (uninit fw) [0..<n])) st"

text \<open>\<open>kfree(NULL)\<close> does nothing; freeing a pointer that is not live is a fault.\<close>

definition kfree :: "addr option \<Rightarrow> kstate \<Rightarrow> kstate" where
  "kfree p st =
     (case p of
        None \<Rightarrow> st
      | Some a \<Rightarrow>
          (case heap st a of
             None \<Rightarrow> st\<lparr>fault := True\<rparr>
           | Some obj \<Rightarrow> st\<lparr>heap := (heap st)(a := None)\<rparr>))"

text \<open>\<open>params->block_shift\<close>, read and written through a pointer.\<close>

definition load_block_shift :: "addr option \<Rightarrow> kstate \<Rightarrow> c_int option" where
  "load_block_shift p st =
     (case p of
        None \<Rightarrow> None
      | Some a \<Rightarrow> (case heap st a of Some (Params r) \<Rightarrow> Some (block_shift r) | _ \<Rightarrow> None))"

definition store_block_shift :: "addr option \<Rightarrow> c_int \<Rightarrow> kstate \<Rightarrow> kstate" where
  "store_block_shift p v st =
     (case p of
        None \<Rightarrow> st\<lparr>fault := True\<rparr>
      | Some a \<Rightarrow>
          (case heap st a of
             Some (Params r) \<Rightarrow> st\<lparr>heap := (heap st)(a \<mapsto> Params (r\<lparr>block_shift := v\<rparr>))\<rparr>
           | _ \<Rightarrow> st\<lparr>fault := True\<rparr>))"

text \<open>
  \<open>overlay xs bs\<close>: the bytes \<open>xs\<close> written over the start of \<open>bs\<close>, never beyond its
  end.
\<close>

definition overlay :: "uint8_t list \<Rightarrow> uint8_t list \<Rightarrow> uint8_t list" where
  "overlay xs bs = take (length bs) (xs @ drop (length xs) bs)"

definition memset_zero :: "addr \<Rightarrow> nat \<Rightarrow> kstate \<Rightarrow> kstate" where
  "memset_zero a n st =
     (case heap st a of
        Some (Bytes bs) \<Rightarrow>
          (if n \<le> length bs
           then st\<lparr>heap := (heap st)(a \<mapsto> Bytes (overlay (replicate n 0) bs))\<rparr>
           else st\<lparr>fault := True\<rparr>)
      | _ \<Rightarrow> st\<lparr>fault := True\<rparr>)"

text \<open>The device's response, at most \<open>n\<close> bytes of it, lands in the buffer.\<close>

definition write_response :: "addr \<Rightarrow> nat \<Rightarrow> uint8_t list \<Rightarrow> kstate \<Rightarrow> kstate" where
  "write_response a n data st =
     (case heap st a of
        Some (Bytes bs) \<Rightarrow>
          (if n \<le> length bs
           then st\<lparr>heap := (heap st)(a \<mapsto> Bytes (overlay (take n data) bs))\<rparr>
           else st\<lparr>fault := True\<rparr>)
      | _ \<Rightarrow> st\<lparr>fault := True\<rparr>)"

text \<open>
  \<open>(buffer[4] << 24) | (buffer[5] << 16) | (buffer[6] << 8) | (buffer[7] << 0)\<close>, each
  byte promoted to \<open>int\<close>.
\<close>

definition sector_size_of :: "uint8_t list \<Rightarrow> c_int" where
  "sector_size_of b =
     push_bit 24 (ucast (b ! 4)) OR push_bit 16 (ucast (b ! 5)) OR
     push_bit 8 (ucast (b ! 6)) OR push_bit 0 (ucast (b ! 7))"

definition load_sector_size :: "addr \<Rightarrow> kstate \<Rightarrow> c_int option" where
  "load_sector_size a st =
     (case heap st a of
        Some (Bytes bs) \<Rightarrow> (if 8 \<le> length bs then Some (sector_size_of bs) else None)
      | _ \<Rightarrow> None)"

subsection \<open>\<open>cdrom_attach\<close>\<close>

text \<open>
  The command descriptor block: ten zero bytes, \<open>cmd[0] = READ_CAPACITY\<close>,
  \<open>cmd[1] = (scsi_level <= SCSI_2) ? ((lun << 5) & 0xe0) : 0\<close>.
\<close>

definition read_capacity_cdb :: "scsi_device \<Rightarrow> uint8_t list" where
  "read_capacity_cdb sd =
     (replicate 10 0)
       [0 := READ_CAPACITY,
        1 := (if scsi_level sd \<le>s SCSI_2 then ucast (push_bit 5 (lun sd) AND 0xe0) else 0)]"

text \<open>
  One pass through the head of the \<open>while (1)\<close> loop: both buffers are cleared, the
  command is executed, and the return code and the sense buffer come back.
\<close>

definition read_capacity_attempt ::
  "framework \<Rightarrow> scsi_device \<Rightarrow> uint8_t list \<Rightarrow> addr \<Rightarrow> kstate \<Rightarrow> c_int \<times> uint8_t list \<times> kstate"
where
  "read_capacity_attempt fw sd cmd buffer st =
     (let st1 = memset_zero buffer buffer_size st;
          sense0 = replicate SCSI_SENSE_BUFFERSIZE 0
      in case scsi_execute fw (exec_calls st1) sd cmd (SCST_DATA_READ fw) buffer_size
                (SCST_GENERIC_CDROM_REG_TIMEOUT fw) 3 0 of
           (rc, data, sense) \<Rightarrow>
             (rc, overlay sense sense0,
              (write_response buffer buffer_size data st1)\<lparr>exec_calls := Suc (exec_calls st1)\<rparr>))"

text \<open>
  How the loop is left: by \<open>break\<close>, with the last return code and sense buffer, or by
  the \<open>goto out_free_buf\<close> taken when \<open>--retries\<close> reaches zero.
\<close>

datatype loop_exit = Break c_int "uint8_t list" | Exhausted

definition is_unit_attention :: "framework \<Rightarrow> uint8_t list \<Rightarrow> bool" where
  "is_unit_attention fw sense_buffer =
     scst_analyze_sense fw sense_buffer (length sense_buffer) (SCST_SENSE_KEY_VALID fw)
       UNIT_ATTENTION 0 0"

text \<open>
  The loop. \<open>--retries\<close> wraps around as a 32-bit \<open>int\<close> does, so from any start it
  reaches zero: the measure is the number of decrements still to go.
\<close>

function read_capacity_loop ::
  "framework \<Rightarrow> scsi_device \<Rightarrow> uint8_t list \<Rightarrow> addr \<Rightarrow> addr \<Rightarrow> c_int \<Rightarrow> kstate
     \<Rightarrow> loop_exit \<times> kstate"
where
  "read_capacity_loop fw sd cmd buffer params n st =
     (case read_capacity_attempt fw sd cmd buffer st of
        (rc, sense_buffer, st') \<Rightarrow>
          if rc = 0 \<or> \<not> is_unit_attention fw sense_buffer
          then (Break rc sense_buffer, st')
          else if n - 1 = 0
          then (Exhausted, store_block_shift (Some params) CDROM_DEF_BLOCK_SHIFT st')
          else read_capacity_loop fw sd cmd buffer params (n - 1) st')"
  by pat_completeness auto
termination
  apply (relation "measure (\<lambda>(fw, sd, cmd, buffer, params, n, st). unat (n - 1))")
   apply (rule wf_measure)
  apply (simp only: in_measure prod.case)
  apply (erule measure_unat)
  done

declare read_capacity_loop.simps [simp del]

text \<open>The labels \<open>out_free_params\<close> and \<open>out_free_buf\<close>.\<close>

definition out_free_params ::
  "c_int \<Rightarrow> addr \<Rightarrow> scst_device \<Rightarrow> kstate \<Rightarrow> c_int \<times> scst_device \<times> kstate"
where
  "out_free_params res params d st =
     (if res = 0 then (res, d\<lparr>dh_priv := Some params\<rparr>, st)
      else (res, d, kfree (Some params) st))"

definition out_free_buf ::
  "c_int \<Rightarrow> addr \<Rightarrow> addr \<Rightarrow> scst_device \<Rightarrow> kstate \<Rightarrow> c_int \<times> scst_device \<times> kstate"
where
  "out_free_buf res buffer params d st = out_free_params res params d (kfree (Some buffer) st)"

text \<open>The code after the loop: the exponent, then the device parameters.\<close>

definition set_probed_shift :: "framework \<Rightarrow> c_int \<Rightarrow> addr \<Rightarrow> addr \<Rightarrow> kstate \<Rightarrow> kstate" where
  "set_probed_shift fw rc buffer params st =
     (if rc = 0
      then (case load_sector_size buffer st of
              None \<Rightarrow> st\<lparr>fault := True\<rparr>
            | Some sector_size \<Rightarrow>
                if sector_size = 0
                then store_block_shift (Some params) CDROM_DEF_BLOCK_SHIFT st
                else store_block_shift (Some params) (scst_calc_block_shift fw sector_size) st)
      else store_block_shift (Some params) CDROM_DEF_BLOCK_SHIFT st)"

definition cdrom_attach ::
  "framework \<Rightarrow> scst_device \<Rightarrow> kstate \<Rightarrow> c_int \<times> scst_device \<times> kstate"
where
  "cdrom_attach fw d st =
     (case scsi_dev d of
        None \<Rightarrow> (- ENODEV, d, st)
      | Some sd \<Rightarrow>
          if sdev_type sd \<noteq> dev_type d then (- ENODEV, d, st)
          else
            (case kzalloc_params fw st of
               (None, st1) \<Rightarrow> (- ENOMEM, d, st1)
             | (Some params, st1) \<Rightarrow>
                 (case kmalloc fw buffer_size st1 of
                    (None, st2) \<Rightarrow> out_free_params (- ENOMEM) params d st2
                  | (Some buffer, st2) \<Rightarrow>
                      (case read_capacity_loop fw sd (read_capacity_cdb sd) buffer params
                              (SCST_DEV_UA_RETRIES fw) st2 of
                         (Exhausted, st3) \<Rightarrow> out_free_buf (- ENODEV) buffer params d st3
                       | (Break rc sense_buffer, st3) \<Rightarrow>
                           out_free_buf (scst_obtain_device_parameters fw d) buffer params d
                             (set_probed_shift fw rc buffer params st3)))))"

subsection \<open>\<open>cdrom_detach\<close>\<close>

definition cdrom_detach :: "scst_device \<Rightarrow> kstate \<Rightarrow> scst_device \<times> kstate" where
  "cdrom_detach d st = (d\<lparr>dh_priv := None\<rparr>, kfree (dh_priv d) st)"

subsection \<open>\<open>cdrom_parse\<close> and \<open>cdrom_get_block_shift\<close>\<close>

text \<open>\<open>None\<close> is the dereference of a pointer that holds no live record.\<close>

definition cdrom_get_block_shift :: "'a scst_cmd_scheme \<Rightarrow> kstate \<Rightarrow> c_int option" where
  "cdrom_get_block_shift cmd st = load_block_shift (dh_priv (dev cmd)) st"

text \<open>
  \<open>scst_cdrom_generic_parse\<close> is the framework's; it receives the command and the
  accessor, and the handler ignores what it returns. It is the parameter \<open>generic_parse\<close>
  here, a function of the command and of the accessor.
\<close>

definition cdrom_parse ::
  "framework \<Rightarrow> ('a scst_cmd_scheme \<Rightarrow> ('a scst_cmd_scheme \<Rightarrow> c_int option) \<Rightarrow> 'a scst_cmd_scheme)
     \<Rightarrow> 'a scst_cmd_scheme \<Rightarrow> kstate \<Rightarrow> c_int \<times> 'a scst_cmd_scheme \<times> kstate"
where
  "cdrom_parse fw generic_parse cmd st =
     (let res = SCST_CMD_STATE_DEFAULT fw;
          cmd1 = generic_parse cmd (\<lambda>c. cdrom_get_block_shift c st);
          cmd2 = cmd1\<lparr>retries := SCST_PASSTHROUGH_RETRIES fw\<rparr>
      in (res, cmd2, st))"

subsection \<open>\<open>cdrom_set_block_shift\<close>\<close>

definition cdrom_set_block_shift :: "'a scst_cmd_scheme \<Rightarrow> c_int \<Rightarrow> kstate \<Rightarrow> kstate" where
  "cdrom_set_block_shift cmd bs st =
     (if bs \<noteq> 0
      then store_block_shift (dh_priv (dev cmd)) bs st
      else store_block_shift (dh_priv (dev cmd)) CDROM_DEF_BLOCK_SHIFT st)"

subsection \<open>Vocabulary for the statements\<close>

text \<open>
  The \<open>i\<close>-th call of \<open>scsi_execute\<close>, as \<open>cdrom_attach\<close> makes it: what it returns, and the
  data and sense buffers as they stand after it (cleared, then written by the device).
\<close>

definition attempt_result :: "framework \<Rightarrow> scsi_device \<Rightarrow> nat \<Rightarrow> c_int \<times> uint8_t list \<times> uint8_t list" where
  "attempt_result fw sd i =
     scsi_execute fw i sd (read_capacity_cdb sd) (SCST_DATA_READ fw) buffer_size
       (SCST_GENERIC_CDROM_REG_TIMEOUT fw) 3 0"

definition attempt_rc :: "framework \<Rightarrow> scsi_device \<Rightarrow> nat \<Rightarrow> c_int" where
  "attempt_rc fw sd i = fst (attempt_result fw sd i)"

definition attempt_data :: "framework \<Rightarrow> scsi_device \<Rightarrow> nat \<Rightarrow> uint8_t list" where
  "attempt_data fw sd i =
     overlay (take buffer_size (fst (snd (attempt_result fw sd i)))) (replicate buffer_size 0)"

definition attempt_sense :: "framework \<Rightarrow> scsi_device \<Rightarrow> nat \<Rightarrow> uint8_t list" where
  "attempt_sense fw sd i =
     overlay (snd (snd (attempt_result fw sd i))) (replicate SCSI_SENSE_BUFFERSIZE 0)"

text \<open>
  The \<open>i\<close>-th call meets the transient condition: it fails and its sense data is classified
  as unit attention. This is the negation of the loop's \<open>break\<close> test.
\<close>

definition transient :: "framework \<Rightarrow> scsi_device \<Rightarrow> nat \<Rightarrow> bool" where
  "transient fw sd i \<longleftrightarrow>
     attempt_rc fw sd i \<noteq> 0 \<and> is_unit_attention fw (attempt_sense fw sd i)"

text \<open>The allocator's invariant: nothing lives at or above the next address to hand out.\<close>

definition heap_wf :: "kstate \<Rightarrow> bool" where
  "heap_wf st \<longleftrightarrow> (\<forall>a. next_addr st \<le> a \<longrightarrow> heap st a = None)"

text \<open>The state once both allocations of \<open>cdrom_attach\<close> have succeeded.\<close>

definition after_allocs :: "framework \<Rightarrow> kstate \<Rightarrow> kstate" where
  "after_allocs fw st =
     st\<lparr>heap := (heap st)
          (next_addr st \<mapsto> Params \<lparr>block_shift = 0\<rparr>,
           Suc (next_addr st) \<mapsto> Bytes (map (uninit fw) [0..<buffer_size])),
        next_addr := Suc (Suc (next_addr st)),
        alloc_calls := Suc (Suc (alloc_calls st))\<rparr>"

text \<open>
  The two ways \<open>cdrom_attach\<close> leaves the state after \<open>n\<close> capacity queries: with the record
  alone left on the heap, holding \<open>shift\<close>; or with the heap as it was.
\<close>

definition attached :: "c_int \<Rightarrow> nat \<Rightarrow> kstate \<Rightarrow> kstate" where
  "attached shift n st =
     st\<lparr>heap := (heap st)(next_addr st \<mapsto> Params \<lparr>block_shift = shift\<rparr>),
        next_addr := Suc (Suc (next_addr st)),
        alloc_calls := Suc (Suc (alloc_calls st)),
        exec_calls := exec_calls st + n\<rparr>"

definition gave_up :: "nat \<Rightarrow> kstate \<Rightarrow> kstate" where
  "gave_up n st =
     st\<lparr>next_addr := Suc (Suc (next_addr st)),
        alloc_calls := Suc (Suc (alloc_calls st)),
        exec_calls := exec_calls st + n\<rparr>"

text \<open>
  Modelled from the spec: \<open>scst_calc_block_shift\<close> (the spec's DeriveBlockShift) is the
  framework's and is not in the handler's file. The spec asks of it that, for every sector
  size that is an exact power of two in [512, 65536], DeriveBlockShift followed by
  \<open>2^exponent\<close> reconstructs the original size exactly.
\<close>

definition DeriveBlockShift_spec :: "(c_int \<Rightarrow> c_int) \<Rightarrow> bool" where
  "DeriveBlockShift_spec f \<longleftrightarrow> (\<forall>k\<in>set [9..<17]. (2::int) ^ nat (sint (f (2 ^ k))) = 2 ^ k)"

subsection \<open>A fake framework\<close>

text \<open>
  Concrete instances run against a fake framework: a scripted transport, allocations that
  succeed, a sense classifier that compares the sense key of fixed-format sense data, a
  block-shift helper that knows the powers of two from 512 to 65536, and a parameter
  synchronisation that returns a fixed code.
\<close>

definition fake_analyze_sense :: "uint8_t list \<Rightarrow> nat \<Rightarrow> c_int \<Rightarrow> c_int \<Rightarrow> c_int \<Rightarrow> c_int \<Rightarrow> bool" where
  "fake_analyze_sense sense len valid_mask key asc ascq \<longleftrightarrow>
     2 < len \<and> ucast (sense ! 2 AND 0x0f) = key"

definition fake_calc_block_shift :: "c_int \<Rightarrow> c_int" where
  "fake_calc_block_shift sector_size =
     (case find (\<lambda>k. 2 ^ k = sector_size) [9..<17] of Some k \<Rightarrow> of_nat k | None \<Rightarrow> - 1)"

definition fake_framework ::
  "c_int \<Rightarrow> (nat \<Rightarrow> c_int \<times> uint8_t list \<times> uint8_t list) \<Rightarrow> c_int \<Rightarrow> framework"
where
  "fake_framework ua_retries transport sync =
     \<lparr>SCST_DEV_UA_RETRIES = ua_retries, SCST_GENERIC_CDROM_REG_TIMEOUT = 900, SCST_DATA_READ = 2,
      SCST_SENSE_KEY_VALID = 4, SCST_PASSTHROUGH_RETRIES = 0, SCST_CMD_STATE_DEFAULT = 500,
      alloc_ok = (\<lambda>i. True), uninit = (\<lambda>i. 0xAA),
      scsi_execute = (\<lambda>i sd cmd data_dir bufflen timeout retries flags. transport i),
      scst_analyze_sense = fake_analyze_sense,
      scst_calc_block_shift = fake_calc_block_shift,
      scst_obtain_device_parameters = (\<lambda>d. sync)\<rparr>"

text \<open>
  Transports: one that always reports unit attention, one that always reports a hardware
  error, one that reports 2048-byte sectors, and one that reports unit attention once and
  2048-byte sectors from then on.
\<close>

definition always_ua :: "nat \<Rightarrow> c_int \<times> uint8_t list \<times> uint8_t list" where
  "always_ua i = (2, [], [0x70, 0, 6])"

definition hard_error :: "nat \<Rightarrow> c_int \<times> uint8_t list \<times> uint8_t list" where
  "hard_error i = (2, [], [0x70, 0, 4])"

definition reports_2048 :: "nat \<Rightarrow> c_int \<times> uint8_t list \<times> uint8_t list" where
  "reports_2048 i = (0, [0, 0, 0xff, 0xff, 0, 0, 8, 0], [])"

definition ua_once :: "nat \<Rightarrow> c_int \<times> uint8_t list \<times> uint8_t list" where
  "ua_once i = (if i = 0 then always_ua i else reports_2048 i)"

definition cd_sdev :: scsi_device where
  "cd_sdev = \<lparr>sdev_type = 5, scsi_level = 3, lun = 0\<rparr>"

definition cd_dev :: scst_device where
  "cd_dev = \<lparr>scsi_dev = Some cd_sdev, dev_type = 5, dh_priv = None, virt_name = ''cd0''\<rparr>"

definition boot_state :: kstate where
  "boot_state = \<lparr>heap = Map.empty, next_addr = 0, alloc_calls = 0, exec_calls = 0, fault = False\<rparr>"

text \<open>A device whose record holds exponent 9, and a command for it.\<close>

definition probed_state :: kstate where
  "probed_state = attached 9 1 boot_state"

definition probed_cmd :: scst_cmd where
  "probed_cmd = \<lparr>dev = cd_dev\<lparr>dh_priv := Some 0\<rparr>, retries = 3\<rparr>"

section \<open>Properties\<close>

subsection \<open>Memory and the capacity loop\<close>

lemma length_overlay [simp]: "length (overlay xs bs) = length bs"
  by (simp add: overlay_def)

lemma overlay_replicate_same: "length bs = n \<Longrightarrow> overlay (replicate n 0) bs = replicate n 0"
  by (simp add: overlay_def)

lemma params_update [simp]: "r\<lparr>block_shift := v\<rparr> = \<lparr>block_shift = v\<rparr>" for r :: cdrom_params
  by (cases r) simp

lemma read_capacity_attempt_live:
  assumes "heap st b = Some (Bytes bs)" and "length bs = buffer_size"
  shows "read_capacity_attempt fw sd (read_capacity_cdb sd) b st =
           (attempt_rc fw sd (exec_calls st), attempt_sense fw sd (exec_calls st),
            st\<lparr>heap := (heap st)(b \<mapsto> Bytes (attempt_data fw sd (exec_calls st))),
               exec_calls := Suc (exec_calls st)\<rparr>)"
  using assms
  by (simp add: read_capacity_attempt_def memset_zero_def write_response_def attempt_rc_def
      attempt_sense_def attempt_data_def attempt_result_def overlay_replicate_same
      split: prod.splits)

lemma length_attempt_data [simp]: "length (attempt_data fw sd i) = buffer_size"
  by (simp add: attempt_data_def)

lemma read_capacity_attempt_frame:
  assumes "heap st b = Some (Bytes bs)" and "length bs = buffer_size"
  shows "\<exists>rc sense bs'. length bs' = buffer_size \<and>
           read_capacity_attempt fw sd cmd b st =
             (rc, sense, st\<lparr>heap := (heap st)(b \<mapsto> Bytes bs'), exec_calls := Suc (exec_calls st)\<rparr>)"
proof -
  obtain rc data sense where ex:
    "scsi_execute fw (exec_calls st) sd cmd (SCST_DATA_READ fw) buffer_size
       (SCST_GENERIC_CDROM_REG_TIMEOUT fw) 3 0 = (rc, data, sense)"
    by (rule prod_cases3)
  let ?bs' = "overlay (take buffer_size data) (overlay (replicate buffer_size 0) bs)"
  have "read_capacity_attempt fw sd cmd b st =
      (rc, overlay sense (replicate SCSI_SENSE_BUFFERSIZE 0),
       st\<lparr>heap := (heap st)(b \<mapsto> Bytes ?bs'), exec_calls := Suc (exec_calls st)\<rparr>)"
    using assms ex by (simp add: read_capacity_attempt_def memset_zero_def write_response_def)
  moreover have "length ?bs' = buffer_size"
    using assms(2) by simp
  ultimately show ?thesis by blast
qed

text \<open>
  The loop leaves by \<open>break\<close> at the first call that is not transient, if the retry budget
  lasts that long.
\<close>

lemma read_capacity_loop_break:
  assumes "heap st b = Some (Bytes bs)" and "length bs = buffer_size"
    and "\<forall>i<k. transient fw sd (exec_calls st + i)"
    and "\<not> transient fw sd (exec_calls st + k)"
    and "k \<le> unat (n - 1)"
  shows "read_capacity_loop fw sd (read_capacity_cdb sd) b p n st =
           (Break (attempt_rc fw sd (exec_calls st + k)) (attempt_sense fw sd (exec_calls st + k)),
            st\<lparr>heap := (heap st)(b \<mapsto> Bytes (attempt_data fw sd (exec_calls st + k))),
               exec_calls := Suc (exec_calls st + k)\<rparr>)"
  using assms
proof (induction k arbitrary: n st bs)
  case 0
  then show ?case
    by (subst read_capacity_loop.simps)
      (simp add: read_capacity_attempt_live [OF "0.prems"(1,2)] transient_def)
next
  case (Suc k)
  let ?st' = "st\<lparr>heap := (heap st)(b \<mapsto> Bytes (attempt_data fw sd (exec_calls st))),
               exec_calls := Suc (exec_calls st)\<rparr>"
  from Suc.prems(3) have t0: "transient fw sd (exec_calls st)"
    by (metis add.right_neutral zero_less_Suc)
  from Suc.prems(5) have n1: "n - 1 \<noteq> 0"
    by (metis Suc_le_D nat.distinct(1) unat_0)
  have h: "heap ?st' b = Some (Bytes (attempt_data fw sd (exec_calls st)))" by simp
  have a: "\<forall>i<k. transient fw sd (exec_calls ?st' + i)"
    using Suc.prems(3) by (auto dest: spec [where x = "Suc _"])
  have b: "\<not> transient fw sd (exec_calls ?st' + k)"
    using Suc.prems(4) by simp
  have c: "k \<le> unat (n - 1 - 1)"
    using Suc.prems(5) unat_minus_one [OF n1] by arith
  have rec: "read_capacity_loop fw sd (read_capacity_cdb sd) b p n st =
      read_capacity_loop fw sd (read_capacity_cdb sd) b p (n - 1) ?st'"
    using t0 n1
    by (subst read_capacity_loop.simps)
      (simp add: read_capacity_attempt_live [OF Suc.prems(1,2)] transient_def)
  show ?case
    unfolding rec
    by (subst Suc.IH [OF h _ a b c]) simp_all
qed

text \<open>
  If every call is transient the loop runs \<open>unat (n - 1) + 1\<close> times, stores the default exponent
  and leaves by \<open>goto\<close>.
\<close>

lemma read_capacity_loop_exhaust:
  assumes "heap st b = Some (Bytes bs)" and "length bs = buffer_size"
    and "heap st p = Some (Params r)"
    and "\<forall>i\<le>unat (n - 1). transient fw sd (exec_calls st + i)"
  shows "read_capacity_loop fw sd (read_capacity_cdb sd) b p n st =
           (Exhausted,
            st\<lparr>heap := (heap st)
                 (b \<mapsto> Bytes (attempt_data fw sd (exec_calls st + unat (n - 1))),
                  p \<mapsto> Params (r\<lparr>block_shift := CDROM_DEF_BLOCK_SHIFT\<rparr>)),
               exec_calls := Suc (exec_calls st + unat (n - 1))\<rparr>)"
  using assms
proof (induction "unat (n - 1)" arbitrary: n st bs)
  case 0
  from "0.prems"(3) "0.prems"(1) have pb: "p \<noteq> b" by auto
  from "0.hyps" have n1: "n - 1 = 0" by (simp add: unat_eq_0)
  from "0.prems"(4) have t0: "transient fw sd (exec_calls st)"
    by (metis add.right_neutral le0)
  show ?case
    using t0 n1 pb "0.prems"(3)
    by (subst read_capacity_loop.simps)
      (simp add: read_capacity_attempt_live [OF "0.prems"(1,2)] transient_def
        store_block_shift_def)
next
  case (Suc m)
  let ?st' = "st\<lparr>heap := (heap st)(b \<mapsto> Bytes (attempt_data fw sd (exec_calls st))),
               exec_calls := Suc (exec_calls st)\<rparr>"
  from Suc.prems(3) Suc.prems(1) have pb: "p \<noteq> b" by auto
  from Suc.hyps(2) have n1: "n - 1 \<noteq> 0" by (metis nat.distinct(1) unat_0)
  have m: "m = unat (n - 1 - 1)"
    using Suc.hyps(2) unat_minus_one [OF n1] by arith
  from Suc.prems(4) have t0: "transient fw sd (exec_calls st)"
    by (metis add.right_neutral le0)
  have h: "heap ?st' b = Some (Bytes (attempt_data fw sd (exec_calls st)))" by simp
  have hp: "heap ?st' p = Some (Params r)" using pb Suc.prems(3) by simp
  have a: "\<forall>i\<le>unat (n - 1 - 1). transient fw sd (exec_calls ?st' + i)"
  proof (intro allI impI)
    fix i assume "i \<le> unat (n - 1 - 1)"
    then have "Suc i \<le> unat (n - 1)" using m Suc.hyps(2) by arith
    with Suc.prems(4) have "transient fw sd (exec_calls st + Suc i)" by blast
    then show "transient fw sd (exec_calls ?st' + i)" by simp
  qed
  have rec: "read_capacity_loop fw sd (read_capacity_cdb sd) b p n st =
      read_capacity_loop fw sd (read_capacity_cdb sd) b p (n - 1) ?st'"
    using t0 n1
    by (subst read_capacity_loop.simps)
      (simp add: read_capacity_attempt_live [OF Suc.prems(1,2)] transient_def)
  have e: "unat (n - 1) = Suc (unat (n - 1 - 1))"
    using m Suc.hyps(2) by arith
  show ?case
    unfolding rec
    using pb e by (subst Suc.hyps(1) [OF m h _ hp a]) (simp_all add: fun_upd_twist)
qed

text \<open>Whatever the transport does, the loop touches the buffer, the record and the call count only.\<close>

lemma read_capacity_loop_frame:
  assumes "heap st b = Some (Bytes bs)" and "length bs = buffer_size"
    and "heap st p = Some (Params r)"
  shows "\<exists>ex bs' r' e. length bs' = buffer_size \<and>
           read_capacity_loop fw sd cmd b p n st =
             (ex, st\<lparr>heap := (heap st)(b \<mapsto> Bytes bs', p \<mapsto> Params r'), exec_calls := e\<rparr>)"
  using assms
proof (induction "unat (n - 1)" arbitrary: n st bs)
  case 0
  from "0.prems"(1,3) have pb: "p \<noteq> b" by auto
  from "0.hyps" have n1: "n - 1 = 0" by (simp add: unat_eq_0)
  from read_capacity_attempt_frame [OF "0.prems"(1,2)]
  obtain rc sense bs' where len: "length bs' = buffer_size"
    and att: "read_capacity_attempt fw sd cmd b st =
      (rc, sense, st\<lparr>heap := (heap st)(b \<mapsto> Bytes bs'), exec_calls := Suc (exec_calls st)\<rparr>)"
    by blast
  have idem: "(heap st)(b \<mapsto> Bytes bs') = (heap st)(b \<mapsto> Bytes bs', p \<mapsto> Params r)"
    using pb "0.prems"(3) by (auto simp: fun_eq_iff)
  show ?case
  proof (cases "rc = 0 \<or> \<not> is_unit_attention fw sense")
    case True
    then have "read_capacity_loop fw sd cmd b p n st =
        (Break rc sense,
         st\<lparr>heap := (heap st)(b \<mapsto> Bytes bs', p \<mapsto> Params r), exec_calls := Suc (exec_calls st)\<rparr>)"
      by (subst read_capacity_loop.simps) (simp add: att idem [symmetric])
    with len show ?thesis by blast
  next
    case False
    then have "read_capacity_loop fw sd cmd b p n st =
        (Exhausted,
         st\<lparr>heap := (heap st)(b \<mapsto> Bytes bs', p \<mapsto> Params \<lparr>block_shift = CDROM_DEF_BLOCK_SHIFT\<rparr>),
            exec_calls := Suc (exec_calls st)\<rparr>)"
      using n1 pb "0.prems"(3)
      by (subst read_capacity_loop.simps) (simp add: att store_block_shift_def)
    with len show ?thesis by blast
  qed
next
  case (Suc m)
  from Suc.prems(1,3) have pb: "p \<noteq> b" by auto
  from Suc.hyps(2) have n1: "n - 1 \<noteq> 0" by (metis nat.distinct(1) unat_0)
  have m: "m = unat (n - 1 - 1)"
    using Suc.hyps(2) unat_minus_one [OF n1] by arith
  from read_capacity_attempt_frame [OF Suc.prems(1,2)]
  obtain rc sense bs' where len: "length bs' = buffer_size"
    and att: "read_capacity_attempt fw sd cmd b st =
      (rc, sense, st\<lparr>heap := (heap st)(b \<mapsto> Bytes bs'), exec_calls := Suc (exec_calls st)\<rparr>)"
    by blast
  let ?st' = "st\<lparr>heap := (heap st)(b \<mapsto> Bytes bs'), exec_calls := Suc (exec_calls st)\<rparr>"
  have idem: "(heap st)(b \<mapsto> Bytes bs') = (heap st)(b \<mapsto> Bytes bs', p \<mapsto> Params r)"
    using pb Suc.prems(3) by (auto simp: fun_eq_iff)
  show ?case
  proof (cases "rc = 0 \<or> \<not> is_unit_attention fw sense")
    case True
    then have "read_capacity_loop fw sd cmd b p n st =
        (Break rc sense,
         st\<lparr>heap := (heap st)(b \<mapsto> Bytes bs', p \<mapsto> Params r), exec_calls := Suc (exec_calls st)\<rparr>)"
      by (subst read_capacity_loop.simps) (simp add: att idem [symmetric])
    with len show ?thesis by blast
  next
    case False
    then have rec: "read_capacity_loop fw sd cmd b p n st =
        read_capacity_loop fw sd cmd b p (n - 1) ?st'"
      using n1 by (subst read_capacity_loop.simps) (simp add: att)
    have h: "heap ?st' b = Some (Bytes bs')" by simp
    have hp: "heap ?st' p = Some (Params r)" using pb Suc.prems(3) by simp
    from Suc.hyps(1) [OF m h len hp]
    obtain ex bs'' r' e where len'': "length bs'' = buffer_size"
      and l: "read_capacity_loop fw sd cmd b p (n - 1) ?st' =
        (ex, ?st'\<lparr>heap := (heap ?st')(b \<mapsto> Bytes bs'', p \<mapsto> Params r'), exec_calls := e\<rparr>)"
      by blast
    have "read_capacity_loop fw sd cmd b p n st =
        (ex, st\<lparr>heap := (heap st)(b \<mapsto> Bytes bs'', p \<mapsto> Params r'), exec_calls := e\<rparr>)"
      unfolding rec l by simp
    with len'' show ?thesis by blast
  qed
qed

subsection \<open>The sector size is read most significant byte first\<close>

lemma bit_uint8_less: "bit x m \<Longrightarrow> m < 8" for x :: uint8_t
  using bit_imp_le_length [of x m] by simp

lemma or_disjoint_add: "(\<And>n. \<not> bit x n \<or> \<not> bit y n) \<Longrightarrow> x OR y = x + y" for x y :: c_int
  by (simp add: disjunctive_add)

lemma be32_sum:
  fixes a b c d :: uint8_t
  shows "(push_bit 24 (ucast a) OR push_bit 16 (ucast b) OR push_bit 8 (ucast c) OR
            push_bit 0 (ucast d) :: c_int) =
         ucast a * 2 ^ 24 + ucast b * 2 ^ 16 + ucast c * 2 ^ 8 + ucast d"
proof -
  have 1: "(push_bit 8 (ucast c) OR push_bit 0 (ucast d) :: c_int) =
      push_bit 8 (ucast c) + ucast d"
    by (rule trans [OF _ or_disjoint_add])
      (auto simp: bit_push_bit_iff bit_ucast_iff dest: bit_uint8_less)
  have 2: "(push_bit 16 (ucast b) OR (push_bit 8 (ucast c) OR push_bit 0 (ucast d)) :: c_int) =
      push_bit 16 (ucast b) + (push_bit 8 (ucast c) OR push_bit 0 (ucast d))"
    by (rule or_disjoint_add)
      (auto simp: bit_push_bit_iff bit_ucast_iff bit_or_iff dest: bit_uint8_less)
  have 3: "(push_bit 24 (ucast a) OR
        (push_bit 16 (ucast b) OR (push_bit 8 (ucast c) OR push_bit 0 (ucast d))) :: c_int) =
      push_bit 24 (ucast a) +
        (push_bit 16 (ucast b) OR (push_bit 8 (ucast c) OR push_bit 0 (ucast d)))"
    by (rule or_disjoint_add)
      (auto simp: bit_push_bit_iff bit_ucast_iff bit_or_iff dest: bit_uint8_less)
  show ?thesis
    by (subst 3, subst 2, subst 1) (simp add: push_bit_eq_mult)
qed

lemma sector_size_of_big_endian:
  "unat (sector_size_of b) =
     unat (b ! 4) * 2 ^ 24 + unat (b ! 5) * 2 ^ 16 + unat (b ! 6) * 2 ^ 8 + unat (b ! 7)"
proof -
  let ?n = "unat (b ! 4) * 2 ^ 24 + unat (b ! 5) * 2 ^ 16 + unat (b ! 6) * 2 ^ 8 + unat (b ! 7)"
  have "unat (b ! 4) < 256" "unat (b ! 5) < 256" "unat (b ! 6) < 256" "unat (b ! 7) < 256"
    using unsigned_less [of "b ! 4"] unsigned_less [of "b ! 5"] unsigned_less [of "b ! 6"]
      unsigned_less [of "b ! 7"]
    by simp_all
  then have lt: "?n < 2 ^ LENGTH(32)"
    by simp
  have "(ucast (b ! 4) * 2 ^ 24 + ucast (b ! 5) * 2 ^ 16 + ucast (b ! 6) * 2 ^ 8 +
        ucast (b ! 7) :: c_int) = word_of_nat ?n"
    by simp
  then have "unat (ucast (b ! 4) * 2 ^ 24 + ucast (b ! 5) * 2 ^ 16 + ucast (b ! 6) * 2 ^ 8 +
        ucast (b ! 7) :: c_int) = ?n"
    using lt by (simp only: unat_of_nat mod_less)
  then show ?thesis
    by (simp only: sector_size_of_def be32_sum)
qed

subsection \<open>\<open>cdrom_attach\<close>, path by path\<close>

lemma cdrom_attach_allocated:
  assumes "scsi_dev d = Some sd" and "sdev_type sd = dev_type d"
    and "alloc_ok fw (alloc_calls st)" and "alloc_ok fw (Suc (alloc_calls st))"
  shows "cdrom_attach fw d st =
     (case read_capacity_loop fw sd (read_capacity_cdb sd) (Suc (next_addr st)) (next_addr st)
             (SCST_DEV_UA_RETRIES fw) (after_allocs fw st) of
        (Exhausted, st3) \<Rightarrow> out_free_buf (- ENODEV) (Suc (next_addr st)) (next_addr st) d st3
      | (Break rc sense_buffer, st3) \<Rightarrow>
          out_free_buf (scst_obtain_device_parameters fw d) (Suc (next_addr st)) (next_addr st) d
            (set_probed_shift fw rc (Suc (next_addr st)) (next_addr st) st3))"
  using assms
  by (simp add: cdrom_attach_def kzalloc_params_def kmalloc_def kalloc_def after_allocs_def)

lemma after_allocs_simps [simp]:
  "heap (after_allocs fw st) (Suc (next_addr st)) = Some (Bytes (map (uninit fw) [0..<buffer_size]))"
  "heap (after_allocs fw st) (next_addr st) = Some (Params \<lparr>block_shift = 0\<rparr>)"
  "exec_calls (after_allocs fw st) = exec_calls st"
  "fault (after_allocs fw st) = fault st"
  by (simp_all add: after_allocs_def)

lemma heap_wf_fresh:
  "heap_wf st \<Longrightarrow> heap st (next_addr st) = None"
  "heap_wf st \<Longrightarrow> heap st (Suc (next_addr st)) = None"
  by (simp_all add: heap_wf_def)

lemma released:
  assumes "heap_wf st"
  shows "(heap st)(next_addr st := None, Suc (next_addr st) := None) = heap st"
  using heap_wf_fresh [OF assms] by (auto simp: fun_eq_iff)

lemma set_probed_shift_live:
  assumes "heap st b = Some (Bytes bs)" and "8 \<le> length bs" and "heap st p = Some (Params r)"
  shows "set_probed_shift fw rc b p st =
           st\<lparr>heap := (heap st)(p \<mapsto> Params \<lparr>block_shift =
               (if rc = 0
                then if sector_size_of bs = 0 then 11 else scst_calc_block_shift fw (sector_size_of bs)
                else 11)\<rparr>)\<rparr>"
  using assms
  by (simp add: set_probed_shift_def load_sector_size_def store_block_shift_def
      CDROM_DEF_BLOCK_SHIFT_def)

lemma cdrom_attach_probed:
  assumes "scsi_dev d = Some sd" and "sdev_type sd = dev_type d"
    and "alloc_ok fw (alloc_calls st)" and "alloc_ok fw (Suc (alloc_calls st))"
    and "heap_wf st"
    and "k \<le> unat (SCST_DEV_UA_RETRIES fw - 1)"
    and "\<forall>i<k. transient fw sd (exec_calls st + i)"
    and "\<not> transient fw sd (exec_calls st + k)"
  shows "cdrom_attach fw d st =
     (if scst_obtain_device_parameters fw d = 0
      then (0, d\<lparr>dh_priv := Some (next_addr st)\<rparr>,
            attached
              (if attempt_rc fw sd (exec_calls st + k) = 0
               then if sector_size_of (attempt_data fw sd (exec_calls st + k)) = 0 then 11
                    else scst_calc_block_shift fw
                           (sector_size_of (attempt_data fw sd (exec_calls st + k)))
               else 11)
              (Suc k) st)
      else (scst_obtain_device_parameters fw d, d, gave_up (Suc k) st))"
proof -
  let ?p = "next_addr st" and ?b = "Suc (next_addr st)"
  let ?st2 = "after_allocs fw st"
  let ?st3 = "?st2\<lparr>heap := (heap ?st2)(?b \<mapsto> Bytes (attempt_data fw sd (exec_calls st + k))),
            exec_calls := Suc (exec_calls st + k)\<rparr>"
  have loop: "read_capacity_loop fw sd (read_capacity_cdb sd) ?b ?p (SCST_DEV_UA_RETRIES fw) ?st2 =
      (Break (attempt_rc fw sd (exec_calls st + k)) (attempt_sense fw sd (exec_calls st + k)), ?st3)"
    using read_capacity_loop_break [where k = k and st = ?st2 and b = ?b and p = ?p
        and n = "SCST_DEV_UA_RETRIES fw" and fw = fw and sd = sd] assms(6-8)
    by (simp add: buffer_size_def)
  have hb: "heap ?st3 ?b = Some (Bytes (attempt_data fw sd (exec_calls st + k)))" by simp
  have hp: "heap ?st3 ?p = Some (Params \<lparr>block_shift = 0\<rparr>)" by simp
  have len: "8 \<le> length (attempt_data fw sd (exec_calls st + k))"
    by (simp add: buffer_size_def)
  show ?thesis
    unfolding cdrom_attach_allocated [OF assms(1-4)] loop
    using released [OF assms(5)] heap_wf_fresh [OF assms(5)]
    by (simp add: set_probed_shift_live [OF hb len hp] out_free_buf_def out_free_params_def
        kfree_def attached_def gave_up_def fun_upd_twist)
      (auto simp: after_allocs_def fun_upd_twist fun_eq_iff)
qed

lemma positive_retries:
  fixes n :: c_int
  assumes "0 <s n"
  shows "n \<noteq> 0" and "unat n = nat (sint n)"
proof -
  from assms have pos: "0 < sint n" by (simp add: word_sless_alt)
  then show "n \<noteq> 0" by auto
  have "sint n < 2 ^ 32" using sint_lt [of n] by simp
  with pos have "take_bit 32 (sint n) = sint n" by (simp add: take_bit_int_eq_self)
  then have "uint n = sint n" using uint_sint [of n] by simp
  then show "unat n = nat (sint n)" by (simp add: unat_eq_nat_uint)
qed

lemma cdrom_attach_exhausted:
  assumes "scsi_dev d = Some sd" and "sdev_type sd = dev_type d"
    and "alloc_ok fw (alloc_calls st)" and "alloc_ok fw (Suc (alloc_calls st))"
    and "heap_wf st"
    and "SCST_DEV_UA_RETRIES fw \<noteq> 0"
    and "\<forall>i<unat (SCST_DEV_UA_RETRIES fw). transient fw sd (exec_calls st + i)"
  shows "read_capacity_loop fw sd (read_capacity_cdb sd) (Suc (next_addr st)) (next_addr st)
             (SCST_DEV_UA_RETRIES fw) (after_allocs fw st) =
           (Exhausted,
            (after_allocs fw st)
              \<lparr>heap := (heap (after_allocs fw st))
                 (Suc (next_addr st) \<mapsto> Bytes (attempt_data fw sd
                     (exec_calls st + unat (SCST_DEV_UA_RETRIES fw - 1))),
                  next_addr st \<mapsto> Params \<lparr>block_shift = 11\<rparr>),
               exec_calls := exec_calls st + unat (SCST_DEV_UA_RETRIES fw)\<rparr>)"
    and "cdrom_attach fw d st =
           (- ENODEV, d,
            st\<lparr>next_addr := Suc (Suc (next_addr st)),
               alloc_calls := Suc (Suc (alloc_calls st)),
               exec_calls := exec_calls st + unat (SCST_DEV_UA_RETRIES fw)\<rparr>)"
proof -
  let ?p = "next_addr st" and ?b = "Suc (next_addr st)" and ?n = "SCST_DEV_UA_RETRIES fw"
  let ?st2 = "after_allocs fw st"
  have u: "unat ?n = Suc (unat (?n - 1))"
    using unat_minus_one [OF assms(6)] assms(6) by (simp add: unat_gt_0)
  have ua: "\<forall>i\<le>unat (?n - 1). transient fw sd (exec_calls ?st2 + i)"
    using assms(7) u by simp
  show loop: "read_capacity_loop fw sd (read_capacity_cdb sd) ?b ?p ?n ?st2 =
      (Exhausted,
       ?st2\<lparr>heap := (heap ?st2)
              (?b \<mapsto> Bytes (attempt_data fw sd (exec_calls st + unat (?n - 1))),
               ?p \<mapsto> Params \<lparr>block_shift = 11\<rparr>),
            exec_calls := exec_calls st + unat ?n\<rparr>)"
    using read_capacity_loop_exhaust [where st = ?st2 and b = ?b and p = ?p and n = ?n
        and fw = fw and sd = sd, OF _ _ _ ua] u
    by (simp add: buffer_size_def CDROM_DEF_BLOCK_SHIFT_def)
  have ne: "- ENODEV \<noteq> 0" by (simp add: ENODEV_def)
  show "cdrom_attach fw d st =
           (- ENODEV, d,
            st\<lparr>next_addr := Suc (Suc (next_addr st)),
               alloc_calls := Suc (Suc (alloc_calls st)),
               exec_calls := exec_calls st + unat ?n\<rparr>)"
    unfolding cdrom_attach_allocated [OF assms(1-4)] loop
    using released [OF assms(5)] ne
    by (simp add: out_free_buf_def out_free_params_def kfree_def after_allocs_def fun_upd_twist)
qed

lemma DeriveBlockShift_2048:
  assumes "DeriveBlockShift_spec f"
  shows "f 2048 = 11"
proof -
  from assms have "(2::int) ^ nat (sint (f (2 ^ 11))) = 2 ^ 11"
    unfolding DeriveBlockShift_spec_def by (rule bspec) simp
  then have "nat (sint (f 2048)) = 11"
    by (simp only: power_inject_exp) simp
  then have "sint (f 2048) = sint (11 :: c_int)" by simp
  then show ?thesis by (simp only: signed_word_eqI)
qed

subsection \<open>The fake framework, evaluated\<close>

lemma fake_sense_simps:
  "is_unit_attention (fake_framework n always_ua s) (attempt_sense (fake_framework n always_ua s) sd i)"
  "\<not> is_unit_attention (fake_framework n hard_error s) (attempt_sense (fake_framework n hard_error s) sd i)"
  "attempt_rc (fake_framework n always_ua s) sd i = 2"
  "attempt_rc (fake_framework n hard_error s) sd i = 2"
  "attempt_rc (fake_framework n reports_2048 s) sd i = 0"
  "attempt_rc (fake_framework n ua_once s) sd (Suc i) = 0"
  "transient (fake_framework n ua_once s) sd 0"
  by (simp_all add: is_unit_attention_def attempt_sense_def attempt_result_def attempt_rc_def
      transient_def fake_framework_def always_ua_def hard_error_def reports_2048_def ua_once_def
      fake_analyze_sense_def overlay_def SCSI_SENSE_BUFFERSIZE_def UNIT_ATTENTION_def)

lemma fake_framework_simps:
  "SCST_DEV_UA_RETRIES (fake_framework n t s) = n"
  "alloc_ok (fake_framework n t s) i"
  "scst_obtain_device_parameters (fake_framework n t s) d = s"
  "scst_calc_block_shift (fake_framework n t s) = fake_calc_block_shift"
  by (simp_all add: fake_framework_def)

lemma cd_dev_simps:
  "scsi_dev cd_dev = Some cd_sdev"
  "sdev_type cd_sdev = dev_type cd_dev"
  "heap_wf boot_state"
  "exec_calls boot_state = 0"
  "next_addr boot_state = 0"
  by (simp_all add: cd_dev_def cd_sdev_def boot_state_def heap_wf_def)

lemma fake_sector_size:
  "sector_size_of (attempt_data (fake_framework n reports_2048 s) sd i) = 2048"
  "sector_size_of (attempt_data (fake_framework n ua_once s) sd (Suc i)) = 2048"
  by (simp_all add: sector_size_of_def attempt_data_def attempt_result_def fake_framework_def
      reports_2048_def ua_once_def overlay_def buffer_size_def)

lemma fake_calc_block_shift_ok: "DeriveBlockShift_spec fake_calc_block_shift"
  by (simp add: DeriveBlockShift_spec_def fake_calc_block_shift_def upt_rec_numeral)

section \<open>The claims\<close>

text \<open>
  C1, as amended. If the configured bound \<open>SCST_DEV_UA_RETRIES\<close> is positive and each of that
  many capacity queries fails with sense data classified as unit attention, then the loop
  of \<open>cdrom_attach\<close> is left through the exhaustion exit with the default exponent 11 written
  into the record, exactly \<open>SCST_DEV_UA_RETRIES\<close> queries have been made, and \<open>cdrom_attach\<close>
  returns \<open>-ENODEV\<close>: the scratch buffer and the record are freed and the device, with its
  \<open>dh_priv\<close>, is as it was.
\<close>

theorem cdrom_attach_ua_exhaustion:
  assumes "scsi_dev d = Some sd" and "sdev_type sd = dev_type d"
    and "alloc_ok fw (alloc_calls st)" and "alloc_ok fw (Suc (alloc_calls st))"
    and "heap_wf st"
    and "0 <s SCST_DEV_UA_RETRIES fw"
    and "\<forall>i<nat (sint (SCST_DEV_UA_RETRIES fw)). transient fw sd (exec_calls st + i)"
  shows "fst (read_capacity_loop fw sd (read_capacity_cdb sd) (Suc (next_addr st)) (next_addr st)
             (SCST_DEV_UA_RETRIES fw) (after_allocs fw st)) = Exhausted \<and>
         load_block_shift (Some (next_addr st))
           (snd (read_capacity_loop fw sd (read_capacity_cdb sd) (Suc (next_addr st))
              (next_addr st) (SCST_DEV_UA_RETRIES fw) (after_allocs fw st))) = Some 11 \<and>
         cdrom_attach fw d st =
           (- ENODEV, d, gave_up (nat (sint (SCST_DEV_UA_RETRIES fw))) st)"
proof -
  note n = positive_retries [OF assms(6)]
  from assms(7) have ua: "\<forall>i<unat (SCST_DEV_UA_RETRIES fw). transient fw sd (exec_calls st + i)"
    by (simp add: n(2))
  note ex = cdrom_attach_exhausted [OF assms(1-5) n(1) ua]
  show ?thesis
    by (simp add: ex n(2) [symmetric] load_block_shift_def gave_up_def)
qed

text \<open>
  C1, an instance: five unit attentions in a row, five queries, and \<open>-ENODEV\<close> with nothing
  left allocated.
\<close>

theorem cdrom_attach_ua_exhaustion_witness:
  "0 <s SCST_DEV_UA_RETRIES (fake_framework 5 always_ua 0) \<and>
   transient (fake_framework 5 always_ua 0) cd_sdev 4 \<and>
   cdrom_attach (fake_framework 5 always_ua 0) cd_dev boot_state =
     (- 19, cd_dev, boot_state\<lparr>next_addr := 2, alloc_calls := 2, exec_calls := 5\<rparr>)"
proof -
  let ?fw = "fake_framework 5 always_ua 0"
  have p: "0 <s SCST_DEV_UA_RETRIES ?fw"
    by (simp add: fake_framework_simps word_sless_alt)
  have t: "transient ?fw cd_sdev i" for i
    by (simp add: transient_def fake_sense_simps)
  have "\<forall>i<nat (sint (SCST_DEV_UA_RETRIES ?fw)). transient ?fw cd_sdev (exec_calls boot_state + i)"
    by (simp add: t)
  from cdrom_attach_ua_exhaustion [OF cd_dev_simps(1,2) fake_framework_simps(2)
      fake_framework_simps(2) cd_dev_simps(3) p this]
  have "cdrom_attach ?fw cd_dev boot_state =
      (- ENODEV, cd_dev, gave_up (nat (sint (SCST_DEV_UA_RETRIES ?fw))) boot_state)"
    by blast
  then show ?thesis
    using p t by (simp add: fake_framework_simps gave_up_def ENODEV_def boot_state_def)
qed

text \<open>
  C1 as it was stated fails: with a transport that always reports unit attention and a
  bound of 5, \<open>cdrom_attach\<close> does not return success.
\<close>

theorem cdrom_attach_ua_exhaustion_counterexample:
  "fst (cdrom_attach (fake_framework 5 always_ua 0) cd_dev boot_state) \<noteq> 0"
proof -
  let ?fw = "fake_framework 5 always_ua 0"
  have "SCST_DEV_UA_RETRIES ?fw \<noteq> 0"
    by (simp add: fake_framework_simps)
  moreover have "\<forall>i<unat (SCST_DEV_UA_RETRIES ?fw). transient ?fw cd_sdev (exec_calls boot_state + i)"
    by (simp add: transient_def fake_sense_simps)
  ultimately have "fst (cdrom_attach ?fw cd_dev boot_state) = - ENODEV"
    using cdrom_attach_exhausted(2) [where fw = ?fw, OF cd_dev_simps(1,2)
        fake_framework_simps(2) fake_framework_simps(2) cd_dev_simps(3)]
    by simp
  then show ?thesis by (simp add: ENODEV_def)
qed

text \<open>
  C2. If the first capacity query fails and its sense data is not classified as unit
  attention, \<open>cdrom_attach\<close> makes exactly one query, leaves the record at the default
  exponent 11 and, parameter synchronisation succeeding, returns 0 with the record attached
  to the device.
\<close>

theorem cdrom_attach_hard_error:
  assumes "scsi_dev d = Some sd" and "sdev_type sd = dev_type d"
    and "alloc_ok fw (alloc_calls st)" and "alloc_ok fw (Suc (alloc_calls st))"
    and "heap_wf st"
    and "attempt_rc fw sd (exec_calls st) \<noteq> 0"
    and "\<not> is_unit_attention fw (attempt_sense fw sd (exec_calls st))"
    and "scst_obtain_device_parameters fw d = 0"
  shows "cdrom_attach fw d st = (0, d\<lparr>dh_priv := Some (next_addr st)\<rparr>, attached 11 1 st)"
proof -
  have nt: "\<not> transient fw sd (exec_calls st + 0)"
    using assms(7) by (simp add: transient_def)
  show ?thesis
    using cdrom_attach_probed [OF assms(1-5) _ _ nt] assms(6,8) by simp
qed

text \<open>C2, an instance: a hardware error on the first query.\<close>

theorem cdrom_attach_hard_error_witness:
  "attempt_rc (fake_framework 5 hard_error 0) cd_sdev 0 \<noteq> 0 \<and>
   cdrom_attach (fake_framework 5 hard_error 0) cd_dev boot_state =
     (0, cd_dev\<lparr>dh_priv := Some 0\<rparr>,
      boot_state\<lparr>heap := [0 \<mapsto> Params \<lparr>block_shift = 11\<rparr>], next_addr := 2, alloc_calls := 2,
        exec_calls := 1\<rparr>)"
  using cdrom_attach_hard_error [of cd_dev cd_sdev "fake_framework 5 hard_error 0" boot_state]
  by (simp add: fake_sense_simps fake_framework_simps cd_dev_simps)
    (simp add: attached_def boot_state_def)

text \<open>
  C3. If the capacity query that ends the loop succeeds (after \<open>k\<close> transient failures, within
  the retry budget), the sector size is read from bytes 4..7 of the response, most
  significant byte first; the record gets the default exponent 11 if that size is zero and
  \<open>scst_calc_block_shift\<close> of the size otherwise, and attach ends as parameter synchronisation
  decides. In particular a first query that succeeds with sector size 2048 leaves exponent
  11 after one query, for every \<open>scst_calc_block_shift\<close> that meets the spec's contract.
\<close>

theorem cdrom_attach_capacity_read:
  fixes fw d sd st k
  defines "sector_size \<equiv> sector_size_of (attempt_data fw sd (exec_calls st + k))"
  assumes "scsi_dev d = Some sd" and "sdev_type sd = dev_type d"
    and "alloc_ok fw (alloc_calls st)" and "alloc_ok fw (Suc (alloc_calls st))"
    and "heap_wf st"
    and "k \<le> unat (SCST_DEV_UA_RETRIES fw - 1)"
    and "\<forall>i<k. transient fw sd (exec_calls st + i)"
    and "attempt_rc fw sd (exec_calls st + k) = 0"
  shows "cdrom_attach fw d st =
           (if scst_obtain_device_parameters fw d = 0
            then (0, d\<lparr>dh_priv := Some (next_addr st)\<rparr>,
                  attached (if sector_size = 0 then 11
                            else scst_calc_block_shift fw sector_size) (Suc k) st)
            else (scst_obtain_device_parameters fw d, d, gave_up (Suc k) st)) \<and>
         unat sector_size =
           unat (attempt_data fw sd (exec_calls st + k) ! 4) * 2 ^ 24 +
           unat (attempt_data fw sd (exec_calls st + k) ! 5) * 2 ^ 16 +
           unat (attempt_data fw sd (exec_calls st + k) ! 6) * 2 ^ 8 +
           unat (attempt_data fw sd (exec_calls st + k) ! 7) \<and>
         (k = 0 \<and> sector_size = 2048 \<and> DeriveBlockShift_spec (scst_calc_block_shift fw) \<and>
          scst_obtain_device_parameters fw d = 0 \<longrightarrow>
            cdrom_attach fw d st = (0, d\<lparr>dh_priv := Some (next_addr st)\<rparr>, attached 11 1 st))"
proof -
  have nt: "\<not> transient fw sd (exec_calls st + k)"
    using assms(9) by (simp add: transient_def)
  have be: "unat sector_size =
      unat (attempt_data fw sd (exec_calls st + k) ! 4) * 2 ^ 24 +
      unat (attempt_data fw sd (exec_calls st + k) ! 5) * 2 ^ 16 +
      unat (attempt_data fw sd (exec_calls st + k) ! 6) * 2 ^ 8 +
      unat (attempt_data fw sd (exec_calls st + k) ! 7)"
    unfolding sector_size_def by (rule sector_size_of_big_endian)
  have "cdrom_attach fw d st =
      (if scst_obtain_device_parameters fw d = 0
       then (0, d\<lparr>dh_priv := Some (next_addr st)\<rparr>,
             attached (if sector_size = 0 then 11
                       else scst_calc_block_shift fw sector_size) (Suc k) st)
       else (scst_obtain_device_parameters fw d, d, gave_up (Suc k) st))"
    using cdrom_attach_probed [OF assms(2-8) nt] assms(9)
    by (simp add: sector_size_def)
  with be show ?thesis
    by (auto simp: DeriveBlockShift_2048)
qed

text \<open>C3, an instance: 2048-byte sectors reported by the first query.\<close>

theorem cdrom_attach_capacity_read_witness:
  "attempt_rc (fake_framework 5 reports_2048 0) cd_sdev 0 = 0 \<and>
   sector_size_of (attempt_data (fake_framework 5 reports_2048 0) cd_sdev 0) = 2048 \<and>
   DeriveBlockShift_spec (scst_calc_block_shift (fake_framework 5 reports_2048 0)) \<and>
   cdrom_attach (fake_framework 5 reports_2048 0) cd_dev boot_state =
     (0, cd_dev\<lparr>dh_priv := Some 0\<rparr>,
      boot_state\<lparr>heap := [0 \<mapsto> Params \<lparr>block_shift = 11\<rparr>], next_addr := 2, alloc_calls := 2,
        exec_calls := 1\<rparr>)"
  using cdrom_attach_capacity_read [of cd_dev cd_sdev "fake_framework 5 reports_2048 0"
      boot_state 0]
  by (simp add: fake_sense_simps fake_framework_simps cd_dev_simps fake_sector_size
      fake_calc_block_shift_ok DeriveBlockShift_2048 [OF fake_calc_block_shift_ok])
    (simp add: attached_def boot_state_def)

text \<open>
  C4. Whatever the record holds, \<open>cdrom_set_block_shift\<close> with revised exponent 0 sets
  its \<open>block_shift\<close> to the default 11, and with a nonzero revised exponent sets it to
  exactly that value; nothing else in the state changes.
\<close>

theorem cdrom_set_block_shift_value:
  assumes "dh_priv (dev cmd) = Some a" and "heap st a = Some (Params r)"
  shows "cdrom_set_block_shift cmd bs st =
           st\<lparr>heap := (heap st)(a \<mapsto> Params \<lparr>block_shift = (if bs = 0 then 11 else bs)\<rparr>)\<rparr> \<and>
         cdrom_get_block_shift cmd (cdrom_set_block_shift cmd bs st) =
           Some (if bs = 0 then 11 else bs)"
  using assms
  by (simp add: cdrom_set_block_shift_def cdrom_get_block_shift_def store_block_shift_def
      load_block_shift_def CDROM_DEF_BLOCK_SHIFT_def)

text \<open>C4, an instance: a record probed at exponent 9 is reset to 11 by the sentinel 0.\<close>

theorem cdrom_set_block_shift_value_witness:
  "cdrom_get_block_shift probed_cmd probed_state = Some 9 \<and>
   cdrom_get_block_shift probed_cmd (cdrom_set_block_shift probed_cmd 0 probed_state) = Some 11 \<and>
   cdrom_get_block_shift probed_cmd (cdrom_set_block_shift probed_cmd 12 probed_state) = Some 12"
proof -
  have p: "dh_priv (dev probed_cmd) = Some 0"
    by (simp add: probed_cmd_def)
  have h: "heap probed_state 0 = Some (Params \<lparr>block_shift = 9\<rparr>)"
    by (simp add: probed_state_def attached_def boot_state_def)
  show ?thesis
    using cdrom_set_block_shift_value [OF p h, of 0] cdrom_set_block_shift_value [OF p h, of 12]
      p h
    by (simp add: cdrom_get_block_shift_def load_block_shift_def)
qed

text \<open>
  C5. If the device has no SCSI device, or its SCSI device's type differs from the device's
  type, \<open>cdrom_attach\<close> returns \<open>-ENODEV\<close> at once: the device and the whole state are
  untouched, so no allocation request and no capacity query have been made.
\<close>

theorem cdrom_attach_type_mismatch:
  assumes "case scsi_dev d of None \<Rightarrow> True | Some sd \<Rightarrow> sdev_type sd \<noteq> dev_type d"
  shows "cdrom_attach fw d st = (- ENODEV, d, st) \<and> sint (- ENODEV) = - 19 \<and>
         alloc_calls (snd (snd (cdrom_attach fw d st))) = alloc_calls st \<and>
         exec_calls (snd (snd (cdrom_attach fw d st))) = exec_calls st"
  using assms
  by (simp add: cdrom_attach_def ENODEV_def split: option.splits)

text \<open>C5, two instances: a device of another type, and a device without SCSI device.\<close>

theorem cdrom_attach_type_mismatch_witness:
  "cdrom_attach (fake_framework 5 reports_2048 0) (cd_dev\<lparr>dev_type := 0\<rparr>) boot_state =
     (- 19, cd_dev\<lparr>dev_type := 0\<rparr>, boot_state) \<and>
   cdrom_attach (fake_framework 5 reports_2048 0) (cd_dev\<lparr>scsi_dev := None\<rparr>) boot_state =
     (- 19, cd_dev\<lparr>scsi_dev := None\<rparr>, boot_state)"
  using cdrom_attach_type_mismatch [of "cd_dev\<lparr>dev_type := 0\<rparr>"
      "fake_framework 5 reports_2048 0" boot_state]
    cdrom_attach_type_mismatch [of "cd_dev\<lparr>scsi_dev := None\<rparr>"
      "fake_framework 5 reports_2048 0" boot_state]
  by (simp add: cd_dev_def cd_sdev_def ENODEV_def)

text \<open>
  C6. If the loop has settled the exponent (it left by \<open>break\<close>, after \<open>k\<close> transient failures
  within the retry budget) and \<open>scst_obtain_device_parameters\<close> then fails, \<open>cdrom_attach\<close>
  returns that failure code; the scratch buffer and the record are freed, so the heap is as
  it was, and the device, with its \<open>dh_priv\<close>, is unchanged.
\<close>

theorem cdrom_attach_sync_failed:
  assumes "scsi_dev d = Some sd" and "sdev_type sd = dev_type d"
    and "alloc_ok fw (alloc_calls st)" and "alloc_ok fw (Suc (alloc_calls st))"
    and "heap_wf st"
    and "k \<le> unat (SCST_DEV_UA_RETRIES fw - 1)"
    and "\<forall>i<k. transient fw sd (exec_calls st + i)"
    and "\<not> transient fw sd (exec_calls st + k)"
    and "scst_obtain_device_parameters fw d \<noteq> 0"
  shows "cdrom_attach fw d st = (scst_obtain_device_parameters fw d, d, gave_up (Suc k) st) \<and>
         heap (snd (snd (cdrom_attach fw d st))) = heap st \<and>
         dh_priv (fst (snd (cdrom_attach fw d st))) = dh_priv d"
  using cdrom_attach_probed [OF assms(1-8)] assms(9)
  by (simp add: gave_up_def)

text \<open>
  C6, an instance: one unit attention, then a successful query, then a synchronisation that
  fails with \<open>-EIO\<close>.
\<close>

theorem cdrom_attach_sync_failed_witness:
  "transient (fake_framework 5 ua_once (- 5)) cd_sdev 0 \<and>
   \<not> transient (fake_framework 5 ua_once (- 5)) cd_sdev 1 \<and>
   cdrom_attach (fake_framework 5 ua_once (- 5)) cd_dev boot_state =
     (- 5, cd_dev, boot_state\<lparr>next_addr := 2, alloc_calls := 2, exec_calls := 2\<rparr>)"
proof -
  let ?fw = "fake_framework 5 ua_once (- 5)"
  have t0: "\<forall>i<1. transient ?fw cd_sdev (exec_calls boot_state + i)"
    by (simp add: fake_sense_simps cd_dev_simps)
  have t1: "\<not> transient ?fw cd_sdev (exec_calls boot_state + 1)"
    using fake_sense_simps(6) [of 5 "- 5" cd_sdev 0] by (simp add: transient_def cd_dev_simps)
  have k: "1 \<le> unat (SCST_DEV_UA_RETRIES ?fw - 1)"
    by (simp add: fake_framework_simps)
  have s: "scst_obtain_device_parameters ?fw cd_dev \<noteq> 0"
    by (simp add: fake_framework_simps)
  show ?thesis
    using cdrom_attach_sync_failed [OF cd_dev_simps(1,2) fake_framework_simps(2)
        fake_framework_simps(2) cd_dev_simps(3) k t0 t1 s] t0 t1
    by (simp add: fake_framework_simps gave_up_def cd_dev_simps) (simp add: boot_state_def)
qed

text \<open>
  C7. For every command and every generic parsing routine, \<open>cdrom_parse\<close> returns the default
  dispatch state, hands the routine the accessor \<open>cdrom_get_block_shift\<close>, sets the command's
  retry count to \<open>SCST_PASSTHROUGH_RETRIES\<close> and leaves the state, the record included, as it
  was; the accessor yields the \<open>block_shift\<close> of the record the device points to.
\<close>

theorem cdrom_parse_read_only:
  "cdrom_parse fw generic_parse cmd st =
     (SCST_CMD_STATE_DEFAULT fw,
      (generic_parse cmd (\<lambda>c. cdrom_get_block_shift c st))\<lparr>retries := SCST_PASSTHROUGH_RETRIES fw\<rparr>,
      st) \<and>
   retries (fst (snd (cdrom_parse fw generic_parse cmd st))) = SCST_PASSTHROUGH_RETRIES fw \<and>
   (\<forall>a r. dh_priv (dev cmd) = Some a \<and> heap st a = Some (Params r) \<longrightarrow>
      cdrom_get_block_shift cmd st = Some (block_shift r))"
  by (simp add: cdrom_parse_def cdrom_get_block_shift_def load_block_shift_def)

text \<open>
  C7, an instance: a generic parser that stores what the accessor returns in the command's
  retry count sees it overwritten, and the record still holds 9.
\<close>

theorem cdrom_parse_read_only_witness:
  "dh_priv (dev probed_cmd) = Some 0 \<and>
   heap probed_state 0 = Some (Params \<lparr>block_shift = 9\<rparr>) \<and>
   cdrom_get_block_shift probed_cmd probed_state = Some 9 \<and>
   cdrom_parse (fake_framework 5 reports_2048 0)
       (\<lambda>c get. c\<lparr>retries := (case get c of None \<Rightarrow> 0 | Some v \<Rightarrow> v)\<rparr>) probed_cmd probed_state =
     (500, probed_cmd\<lparr>retries := 0\<rparr>, probed_state)"
proof -
  have p: "dh_priv (dev probed_cmd) = Some 0"
    by (simp add: probed_cmd_def)
  have h: "heap probed_state 0 = Some (Params \<lparr>block_shift = 9\<rparr>)"
    by (simp add: probed_state_def attached_def boot_state_def)
  from cdrom_parse_read_only [of "fake_framework 5 reports_2048 0"
      "\<lambda>c get. c\<lparr>retries := (case get c of None \<Rightarrow> 0 | Some v \<Rightarrow> v)\<rparr>" probed_cmd probed_state]
  show ?thesis
    using p h by (simp add: fake_framework_def)
qed

text \<open>
  C8. \<open>cdrom_detach\<close> clears \<open>dh_priv\<close>, so that a later lookup finds no record, and frees what
  \<open>dh_priv\<close> pointed to; it raises no fault when \<open>dh_priv\<close> was \<open>NULL\<close> or live; and detaching
  again changes nothing.
\<close>

theorem cdrom_detach_idempotent:
  "(case cdrom_detach d st of
      (d', st') \<Rightarrow>
        dh_priv d' = None \<and>
        load_block_shift (dh_priv d') st' = None \<and>
        (\<forall>a. dh_priv d = Some a \<longrightarrow> heap st' a = None) \<and>
        (dh_priv d = None \<or> (\<exists>a obj. dh_priv d = Some a \<and> heap st a = Some obj)
           \<longrightarrow> fault st' = fault st) \<and>
        cdrom_detach d' st' = (d', st'))"
  by (auto simp: cdrom_detach_def kfree_def load_block_shift_def split: option.splits)

text \<open>C8, an instance: detaching a device whose record holds 9 leaves an empty heap.\<close>

theorem cdrom_detach_idempotent_witness:
  "dh_priv (dev probed_cmd) = Some 0 \<and>
   heap probed_state 0 = Some (Params \<lparr>block_shift = 9\<rparr>) \<and>
   cdrom_detach (dev probed_cmd) probed_state = (cd_dev, gave_up 1 boot_state) \<and>
   heap (gave_up 1 boot_state) 0 = None \<and>
   cdrom_detach cd_dev (gave_up 1 boot_state) = (cd_dev, gave_up 1 boot_state)"
proof -
  have p: "dh_priv (dev probed_cmd) = Some 0"
    by (simp add: probed_cmd_def)
  have h: "heap probed_state 0 = Some (Params \<lparr>block_shift = 9\<rparr>)"
    by (simp add: probed_state_def attached_def boot_state_def)
  have d: "cdrom_detach (dev probed_cmd) probed_state = (cd_dev, gave_up 1 boot_state)"
    by (simp add: cdrom_detach_def kfree_def probed_cmd_def probed_state_def attached_def
        gave_up_def boot_state_def cd_dev_def)
  from cdrom_detach_idempotent [of "dev probed_cmd" probed_state]
  show ?thesis
    using p h by (simp add: d)
qed

text \<open>
  C9. On a well-formed heap, \<open>cdrom_attach\<close> is all or nothing. If it returns 0, the device is
  the old one with \<open>dh_priv\<close> pointing to the newly allocated record, and the heap is the old
  one with that record added: the scratch buffer is gone. If it returns anything else, the
  device is unchanged and the heap is the old one: whatever was allocated has been freed.
  No path raises a fault, and the heap stays well formed.
\<close>

theorem cdrom_attach_atomic:
  assumes "heap_wf st"
  shows "case cdrom_attach fw d st of
           (res, d', st') \<Rightarrow>
             fault st' = fault st \<and> heap_wf st' \<and>
             (if res = 0
              then d' = d\<lparr>dh_priv := Some (next_addr st)\<rparr> \<and>
                   (\<exists>r. heap st' = (heap st)(next_addr st \<mapsto> Params r))
              else d' = d \<and> heap st' = heap st)"
proof (cases "scsi_dev d")
  case None
  with assms show ?thesis by (simp add: cdrom_attach_def ENODEV_def)
next
  case (Some sd)
  note fresh = heap_wf_fresh [OF assms]
  have restore: "(heap st)(next_addr st := None) = heap st"
    "(heap st)(Suc (next_addr st) := None) = heap st"
    using fresh by (auto simp: fun_eq_iff)
  show ?thesis
  proof (cases "sdev_type sd = dev_type d")
    case False
    with Some assms show ?thesis by (simp add: cdrom_attach_def ENODEV_def)
  next
    case ty: True
    show ?thesis
    proof (cases "alloc_ok fw (alloc_calls st)")
      case False
      with Some ty assms show ?thesis
        by (simp add: cdrom_attach_def kzalloc_params_def kalloc_def ENOMEM_def heap_wf_def)
    next
      case a1: True
      show ?thesis
      proof (cases "alloc_ok fw (Suc (alloc_calls st))")
        case False
        with Some ty a1 restore assms show ?thesis
          by (simp add: cdrom_attach_def kzalloc_params_def kmalloc_def kalloc_def ENOMEM_def
              out_free_params_def kfree_def heap_wf_def)
      next
        case a2: True
        let ?p = "next_addr st" and ?b = "Suc (next_addr st)"
        let ?st2 = "after_allocs fw st"
        have "\<exists>ex bs' r' e. length bs' = buffer_size \<and>
            read_capacity_loop fw sd (read_capacity_cdb sd) ?b ?p (SCST_DEV_UA_RETRIES fw) ?st2 =
              (ex, ?st2\<lparr>heap := (heap ?st2)(?b \<mapsto> Bytes bs', ?p \<mapsto> Params r'),
                     exec_calls := e\<rparr>)"
          by (rule read_capacity_loop_frame [where bs = "map (uninit fw) [0..<buffer_size]"
                and r = "\<lparr>block_shift = 0\<rparr>"]) simp_all
        then obtain ex bs' r' e where len: "length bs' = buffer_size"
          and loop: "read_capacity_loop fw sd (read_capacity_cdb sd) ?b ?p (SCST_DEV_UA_RETRIES fw)
              ?st2 =
            (ex, ?st2\<lparr>heap := (heap ?st2)(?b \<mapsto> Bytes bs', ?p \<mapsto> Params r'), exec_calls := e\<rparr>)"
          by blast
        let ?st3 = "?st2\<lparr>heap := (heap ?st2)(?b \<mapsto> Bytes bs', ?p \<mapsto> Params r'), exec_calls := e\<rparr>"
        have hb: "heap ?st3 ?b = Some (Bytes bs')" by simp
        have hp: "heap ?st3 ?p = Some (Params r')" by simp
        have l8: "8 \<le> length bs'" using len by (simp add: buffer_size_def)
        show ?thesis
        proof (cases ex)
          case Exhausted
          show ?thesis
            unfolding cdrom_attach_allocated [OF Some ty a1 a2] loop Exhausted
            using restore assms
            by (simp add: out_free_buf_def out_free_params_def kfree_def ENODEV_def
                after_allocs_def fun_upd_twist heap_wf_def)
        next
          case (Break rc sense)
          have "cdrom_attach fw d st =
              out_free_buf (scst_obtain_device_parameters fw d) ?b ?p d
                (set_probed_shift fw rc ?b ?p ?st3)"
            by (simp add: cdrom_attach_allocated [OF Some ty a1 a2] loop Break)
          then show ?thesis
            unfolding set_probed_shift_live [OF hb l8 hp]
            using restore assms
            by (auto simp: out_free_buf_def out_free_params_def kfree_def after_allocs_def
                fun_upd_twist heap_wf_def)
        qed
      qed
    qed
  qed
qed

text \<open>C9, two instances: an attach that succeeds and one that fails in synchronisation.\<close>

theorem cdrom_attach_atomic_witness:
  "heap_wf boot_state \<and>
   (case cdrom_attach (fake_framework 5 reports_2048 0) cd_dev boot_state of
      (res, d', st') \<Rightarrow>
        res = 0 \<and> d' = cd_dev\<lparr>dh_priv := Some 0\<rparr> \<and> fault st' = False \<and>
        (\<exists>r. heap st' = [0 \<mapsto> Params r])) \<and>
   (case cdrom_attach (fake_framework 5 reports_2048 (- 5)) cd_dev boot_state of
      (res, d', st') \<Rightarrow>
        res \<noteq> 0 \<and> d' = cd_dev \<and> fault st' = False \<and> heap st' = Map.empty)"
proof -
  have ok: "fst (cdrom_attach (fake_framework 5 reports_2048 0) cd_dev boot_state) = 0"
    using cdrom_attach_probed [of cd_dev cd_sdev "fake_framework 5 reports_2048 0" boot_state 0]
    by (simp add: fake_sense_simps fake_framework_simps cd_dev_simps transient_def)
  have ko: "fst (cdrom_attach (fake_framework 5 reports_2048 (- 5)) cd_dev boot_state) = - 5"
    using cdrom_attach_probed [of cd_dev cd_sdev "fake_framework 5 reports_2048 (- 5)"
        boot_state 0]
    by (simp add: fake_sense_simps fake_framework_simps cd_dev_simps transient_def)
  from cdrom_attach_atomic [OF cd_dev_simps(3),
      where fw = "fake_framework 5 reports_2048 0" and d = cd_dev]
    cdrom_attach_atomic [OF cd_dev_simps(3),
      where fw = "fake_framework 5 reports_2048 (- 5)" and d = cd_dev]
  show ?thesis
    using ok ko
    by (simp add: cd_dev_simps split: prod.splits) (auto simp: boot_state_def)
qed

text \<open>
  C10. Whatever the revised exponent and whatever the record held, after
  \<open>cdrom_set_block_shift\<close> the record's \<open>block_shift\<close> is the revised value or the default 11,
  and it is not zero.
\<close>

theorem cdrom_set_block_shift_nonzero:
  assumes "dh_priv (dev cmd) = Some a" and "heap st a = Some (Params r)"
  shows "cdrom_get_block_shift cmd (cdrom_set_block_shift cmd bs st) \<in> {Some bs, Some 11} \<and>
         cdrom_get_block_shift cmd (cdrom_set_block_shift cmd bs st) \<noteq> Some 0 \<and>
         cdrom_get_block_shift cmd (cdrom_set_block_shift cmd bs st) \<noteq> None"
  using assms
  by (simp add: cdrom_set_block_shift_def cdrom_get_block_shift_def store_block_shift_def
      load_block_shift_def CDROM_DEF_BLOCK_SHIFT_def)

text \<open>C10, an instance: a record zeroed by hand is not left at zero by the sentinel.\<close>

theorem cdrom_set_block_shift_nonzero_witness:
  "heap (attached 0 1 boot_state) 0 = Some (Params \<lparr>block_shift = 0\<rparr>) \<and>
   cdrom_get_block_shift probed_cmd (cdrom_set_block_shift probed_cmd 0 (attached 0 1 boot_state))
     = Some 11"
proof -
  have p: "dh_priv (dev probed_cmd) = Some 0"
    by (simp add: probed_cmd_def)
  have h: "heap (attached 0 1 boot_state) 0 = Some (Params \<lparr>block_shift = 0\<rparr>)"
    by (simp add: attached_def boot_state_def)
  from cdrom_set_block_shift_nonzero [OF p h, of 0]
  show ?thesis
    using h by auto
qed

end
